theory Spec2Isabelle
  imports Complex_Main
begin

section \<open>The cross-account relay of \<open>spoke_lambda.py\<close>\<close>

text \<open>
  The module relays an event to a Lambda function of another account: it reads two
  environment variables, assumes a role through STS, invokes the remote function with
  the event as payload, and maps the response (or a failure) to a dictionary.

  The embedding follows the module function by function. Python values are a datatype,
  dictionaries are association lists in insertion order, every subscript that can raise
  returns a sum with the exception on the left, and the two calls that leave the process
  (\<open>sts.assume_role\<close> and \<open>lambda_client.invoke\<close>) are appended to a trace.
  Logging and \<open>traceback.print_tb\<close> write to the log only and are left out; the
  subscripts evaluated inside logging calls are kept, since they can raise.
\<close>

subsection \<open>Python values, dictionaries and exceptions\<close>

text \<open>
  \<open>PFloat\<close> holds a finite float as the rational it denotes (Python compares a float with an
  int exactly). \<open>PStream\<close> is botocore's \<open>StreamingBody\<close> with the bytes it yields.
\<close>

datatype pyval =
    PNone
  | PBool bool
  | PInt int
  | PFloat rat
  | PStr string
  | PList "pyval list"
  | PDict "(string \<times> pyval) list"
  | PStream string

type_synonym pydict = "(string \<times> pyval) list"

text \<open>
  The subclasses of \<open>Exception\<close> that the module can meet. \<open>ClientError\<close> stands for
  \<open>botocore.exceptions.ClientError\<close> and its subclasses and carries its message;
  \<open>KeyError\<close> carries the missing key; \<open>OtherException\<close> is every other subclass of
  \<open>Exception\<close> (a JSON or UTF-8 decoding error, a botocore connection error) with its
  message.
\<close>

datatype exn =
    ClientError string
  | KeyError string
  | TypeError string
  | AttributeError string
  | OtherException string

fun is_ClientError :: "exn \<Rightarrow> bool" where
  "is_ClientError (ClientError m) = True"
| "is_ClientError e = False"

text \<open>A text between single quotes.\<close>

definition quoted :: "string \<Rightarrow> string" where
  "quoted s = [CHR 0x27] @ s @ [CHR 0x27]"

text \<open>\<open>str(ex)\<close>: the message, and for a \<open>KeyError\<close> the \<open>repr\<close> of the key (a plain key
  between single quotes).\<close>

fun str_exn :: "exn \<Rightarrow> string" where
  "str_exn (ClientError m) = m"
| "str_exn (KeyError k) = quoted k"
| "str_exn (TypeError m) = m"
| "str_exn (AttributeError m) = m"
| "str_exn (OtherException m) = m"

text \<open>\<open>d[k]\<close> on a dictionary, \<open>k in d.keys()\<close>, and \<open>d[k] = v\<close> (an existing key keeps its
  position, a new key goes last).\<close>

definition dict_getitem :: "pydict \<Rightarrow> string \<Rightarrow> exn + pyval" where
  "dict_getitem d k = (case map_of d k of None \<Rightarrow> Inl (KeyError k) | Some v \<Rightarrow> Inr v)"

definition dict_keys :: "pydict \<Rightarrow> string list" where
  "dict_keys d = map fst d"

fun dict_setitem :: "pydict \<Rightarrow> string \<Rightarrow> pyval \<Rightarrow> pydict" where
  "dict_setitem [] k v = [(k, v)]"
| "dict_setitem ((k', v') # d) k v =
     (if k' = k then (k, v) # d else (k', v') # dict_setitem d k v)"

text \<open>The name of a value's type, as error messages print it.\<close>

fun py_type_name :: "pyval \<Rightarrow> string" where
  "py_type_name PNone = ''NoneType''"
| "py_type_name (PBool b) = ''bool''"
| "py_type_name (PInt i) = ''int''"
| "py_type_name (PFloat q) = ''float''"
| "py_type_name (PStr s) = ''str''"
| "py_type_name (PList xs) = ''list''"
| "py_type_name (PDict d) = ''dict''"
| "py_type_name (PStream b) = ''StreamingBody''"

text \<open>\<open>v[k]\<close> with a string key on any value: only a dictionary has string keys, every other
  value raises \<open>TypeError\<close> (the wording of the message is CPython 3.9's).\<close>

fun py_getitem :: "pyval \<Rightarrow> string \<Rightarrow> exn + pyval" where
  "py_getitem (PDict d) k = dict_getitem d k"
| "py_getitem (PStr s) k = Inl (TypeError ''string indices must be integers'')"
| "py_getitem (PList xs) k = Inl (TypeError ''list indices must be integers or slices, not str'')"
| "py_getitem v k = Inl (TypeError (quoted (py_type_name v) @ '' object is not subscriptable''))"

text \<open>\<open>v == n\<close> for an integer literal \<open>n\<close>: numbers compare by value (\<open>True\<close> is 1,
  \<open>False\<close> is 0), everything else is unequal.\<close>

fun py_eq_int :: "pyval \<Rightarrow> int \<Rightarrow> bool" where
  "py_eq_int (PInt i) n = (i = n)"
| "py_eq_int (PBool b) n = ((if b then 1 else 0) = n)"
| "py_eq_int (PFloat q) n = (q = of_int n)"
| "py_eq_int v n = False"

text \<open>\<open>body.read()\<close>: defined on a stream only.\<close>

fun py_read :: "pyval \<Rightarrow> exn + string" where
  "py_read (PStream b) = Inr b"
| "py_read v =
     Inl (AttributeError (quoted (py_type_name v) @ '' object has no attribute '' @ quoted ''read''))"

subsection \<open>The world outside the module\<close>

text \<open>
  What the module does not define is a parameter: the process environment, the answers of
  the two AWS calls, and the library functions \<open>json.dumps\<close>, \<open>json.loads\<close>,
  \<open>bytes.decode\<close> and \<open>base64.b64decode\<close>. \<open>json.dumps\<close> of a \<open>str\<close> cannot fail, so it has
  a field of its own.
\<close>

datatype lambda_client = LambdaClient pyval pyval pyval

datatype call =
    AssumeRole string string
  | Invoke string string string

record world =
  environ :: "(string \<times> string) list"
  sts_assume_role :: "string \<Rightarrow> string \<Rightarrow> exn + pydict"
  lambda_invoke :: "lambda_client \<Rightarrow> string \<Rightarrow> string \<Rightarrow> string \<Rightarrow> exn + pydict"
  json_dumps :: "pyval \<Rightarrow> exn + string"
  json_dumps_str :: "string \<Rightarrow> string"
  json_loads :: "string \<Rightarrow> exn + pyval"
  utf8_decode :: "string \<Rightarrow> exn + string"
  b64decode :: "string \<Rightarrow> exn + string"

subsection \<open>The functions of the module\<close>

definition handle_response_status_and_msg :: "pydict \<Rightarrow> exn + pydict" where
  "handle_response_status_and_msg response =
     (case dict_getitem response ''ResponseMetadata'' of
        Inl e \<Rightarrow> Inl e
      | Inr md \<Rightarrow>
         (case py_getitem md ''HTTPStatusCode'' of
            Inl e \<Rightarrow> Inl e
          | Inr code \<Rightarrow>
             (let response1 = dict_setitem response ''responseStatus''
                    (PStr (if py_eq_int code 200 then ''SUCCESS'' else ''FAILED''))
              in
               (case dict_getitem response1 ''ResponseMetadata'' of
                  Inl e \<Rightarrow> Inl e
                | Inr md1 \<Rightarrow>
                   (case py_getitem md1 ''HTTPStatusCode'' of
                      Inl e \<Rightarrow> Inl e
                    | Inr code1 \<Rightarrow> Inr (dict_setitem response1 ''statusCode'' code1))))))"

text \<open>\<open>error_message\<close> is a \<open>str\<close> at both call sites, so \<open>str(error_message)\<close> is the
  message itself.\<close>

definition handle_error :: "world \<Rightarrow> pyval \<Rightarrow> string \<Rightarrow> pyval \<Rightarrow> string \<Rightarrow> pydict" where
  "handle_error w event error_message statusCode response_status =
     [(''event'', event),
      (''statusCode'', PInt 400),
      (''responseStatus'', PStr ''FAILED''),
      (''body'', PStr (json_dumps_str w error_message))]"

definition get_lambda_client_in_hub_account ::
    "world \<Rightarrow> string \<Rightarrow> call list \<Rightarrow> (exn + lambda_client) \<times> call list" where
  "get_lambda_client_in_hub_account w hub_account_role_arn tr =
     (let tr1 = tr @ [AssumeRole hub_account_role_arn ''VPCE_PERMISSIONS''] in
      (case sts_assume_role w hub_account_role_arn ''VPCE_PERMISSIONS'' of
         Inl e \<Rightarrow> (Inl e, tr1)
       | Inr token \<Rightarrow>
          (case dict_getitem token ''Credentials'' of
             Inl e \<Rightarrow> (Inl e, tr1)
           | Inr cred \<Rightarrow>
              (case py_getitem cred ''AccessKeyId'' of
                 Inl e \<Rightarrow> (Inl e, tr1)
               | Inr temp_access_key \<Rightarrow>
                  (case py_getitem cred ''SecretAccessKey'' of
                     Inl e \<Rightarrow> (Inl e, tr1)
                   | Inr temp_secret_key \<Rightarrow>
                      (case py_getitem cred ''SessionToken'' of
                         Inl e \<Rightarrow> (Inl e, tr1)
                       | Inr session_token \<Rightarrow>
                          (Inr (LambdaClient temp_access_key temp_secret_key session_token),
                           tr1)))))))"

definition decode_log_result :: "world \<Rightarrow> pyval \<Rightarrow> exn + string" where
  "decode_log_result w log_result =
     (case log_result of
        PStr s \<Rightarrow>
          (case b64decode w s of Inl e \<Rightarrow> Inl e | Inr raw \<Rightarrow> utf8_decode w raw)
      | _ \<Rightarrow>
          Inl (TypeError (''argument should be a bytes-like object or ASCII string, not ''
                 @ quoted (py_type_name log_result))))"

text \<open>
  Lines 78 to 91 of \<open>invoke_lambda_in_the_networking_account\<close>, what the specification
  calls \<open>classify\<close>: from the response of \<open>invoke\<close> to the value returned, or the
  exception raised.
\<close>

definition classify :: "world \<Rightarrow> pyval \<Rightarrow> pydict \<Rightarrow> exn + pydict" where
  "classify w event response =
     (case dict_getitem response ''StatusCode'' of
        Inl e \<Rightarrow> Inl e
      | Inr sc \<Rightarrow>
     (case dict_getitem response ''Payload'' of
        Inl e \<Rightarrow> Inl e
      | Inr body \<Rightarrow>
     (case py_read body of
        Inl e \<Rightarrow> Inl e
      | Inr bytes \<Rightarrow>
     (case utf8_decode w bytes of
        Inl e \<Rightarrow> Inl e
      | Inr txt \<Rightarrow>
     (case json_loads w txt of
        Inl e \<Rightarrow> Inl e
      | Inr actual_response_from_hub_lambda \<Rightarrow>
     (case py_getitem actual_response_from_hub_lambda ''statusCode'' of
        Inl e \<Rightarrow> Inl e
      | Inr actual_status_code \<Rightarrow>
     (if ''FunctionError'' \<in> set (dict_keys response) \<or> \<not> py_eq_int actual_status_code 200
      then
        (case dict_getitem response ''LogResult'' of
           Inl e \<Rightarrow> Inl e
         | Inr lr \<Rightarrow>
            (case decode_log_result w lr of
               Inl e \<Rightarrow> Inl e
             | Inr log_result \<Rightarrow>
                Inr (handle_error w event log_result actual_status_code ''FAILED'')))
      else handle_response_status_and_msg response)))))))"

text \<open>The body of the \<open>try\<close> statement, lines 72 to 91.\<close>

definition invoke_try_body ::
    "world \<Rightarrow> string \<Rightarrow> string \<Rightarrow> pyval \<Rightarrow> call list \<Rightarrow> (exn + pydict) \<times> call list" where
  "invoke_try_body w hub_account_role_arn hub_account_lambda_name event tr =
     (case get_lambda_client_in_hub_account w hub_account_role_arn tr of
        (Inl e, tr1) \<Rightarrow> (Inl e, tr1)
      | (Inr lambda_client, tr1) \<Rightarrow>
         (case json_dumps w event of
            Inl e \<Rightarrow> (Inl e, tr1)
          | Inr payload \<Rightarrow>
             (let tr2 = tr1 @ [Invoke hub_account_lambda_name ''Tail'' payload] in
              (case lambda_invoke w lambda_client hub_account_lambda_name ''Tail'' payload of
                 Inl e \<Rightarrow> (Inl e, tr2)
               | Inr response \<Rightarrow> (classify w event response, tr2)))))"

definition unable_to_invoke :: string where
  "unable_to_invoke =
     ''Unable to invoke VPC Endpoint permission Lambda function in NETWORK account: ''"

text \<open>The \<open>try\<close> statement with its handler: \<open>except ClientError\<close> only.\<close>

definition invoke_lambda_in_the_networking_account ::
    "world \<Rightarrow> string \<Rightarrow> string \<Rightarrow> pyval \<Rightarrow> call list \<Rightarrow> (exn + pydict) \<times> call list" where
  "invoke_lambda_in_the_networking_account w hub_account_role_arn hub_account_lambda_name event tr =
     (case invoke_try_body w hub_account_role_arn hub_account_lambda_name event tr of
        (Inl (ClientError m), tr') \<Rightarrow>
          (Inr (handle_error w event (unable_to_invoke @ str_exn (ClientError m)) (PInt 500) ''FAILED''),
           tr')
      | (Inl e, tr') \<Rightarrow> (Inl e, tr')
      | (Inr response, tr') \<Rightarrow> (Inr response, tr'))"

text \<open>The dictionary that the \<open>except\<close> branch of \<open>lambda_handler\<close> returns, lines 111 to 116.\<close>

definition barrier_result :: "pyval \<Rightarrow> exn \<Rightarrow> pydict" where
  "barrier_result event ex =
     [(''event'', event),
      (''statusCode'', PInt 400),
      (''responseStatus'', PStr ''FAILED''),
      (''body'', PStr (str_exn ex))]"

text \<open>
  The entry point. The two reads of \<open>os.environ\<close> stand before the \<open>try\<close> statement;
  the handler is \<open>except Exception\<close>.
\<close>

definition lambda_handler :: "world \<Rightarrow> pyval \<Rightarrow> pyval \<Rightarrow> (exn + pydict) \<times> call list" where
  "lambda_handler w event context =
     (case map_of (environ w) ''VPCE_PERM_ROLE_ARN'' of
        None \<Rightarrow> (Inl (KeyError ''VPCE_PERM_ROLE_ARN''), [])
      | Some hub_account_role_arn \<Rightarrow>
     (case map_of (environ w) ''FUNC_NAME'' of
        None \<Rightarrow> (Inl (KeyError ''FUNC_NAME''), [])
      | Some hub_account_lambda_name \<Rightarrow>
     (case invoke_lambda_in_the_networking_account w hub_account_role_arn
             hub_account_lambda_name event [] of
        (Inl ex, tr) \<Rightarrow> (Inr (barrier_result event ex), tr)
      | (Inr response, tr) \<Rightarrow>
          (case dict_getitem response ''statusCode'' of
             Inl ex \<Rightarrow> (Inr (barrier_result event ex), tr)
           | Inr sc \<Rightarrow> (Inr response, tr)))))"

subsection \<open>The remote-success path\<close>

text \<open>
  A run with role \<open>arn\<close> and function \<open>fname\<close> takes the remote-success path with \<open>response\<close>
  and \<open>code\<close> when the role is assumed, the event is serialised, \<open>invoke\<close> answers this call with
  \<open>response\<close>, lines 78 to 84 reach line 90 (\<open>StatusCode\<close> is present, the payload decodes to JSON
  whose nested \<open>statusCode\<close> equals 200, and there is no \<open>FunctionError\<close> key), and
  \<open>response['ResponseMetadata']['HTTPStatusCode']\<close> is \<open>code\<close>.
\<close>

definition remote_success ::
    "world \<Rightarrow> pyval \<Rightarrow> string \<Rightarrow> string \<Rightarrow> pydict \<Rightarrow> pyval \<Rightarrow> bool" where
  "remote_success w event arn fname response code \<longleftrightarrow>
     (\<exists>client tr1 payload sc bytes payload_text actual nested md.
        get_lambda_client_in_hub_account w arn [] = (Inr client, tr1)
      \<and> json_dumps w event = Inr payload
      \<and> lambda_invoke w client fname ''Tail'' payload = Inr response
      \<and> dict_getitem response ''StatusCode'' = Inr sc
      \<and> dict_getitem response ''Payload'' = Inr (PStream bytes)
      \<and> utf8_decode w bytes = Inr payload_text
      \<and> json_loads w payload_text = Inr actual
      \<and> py_getitem actual ''statusCode'' = Inr nested
      \<and> ''FunctionError'' \<notin> set (dict_keys response)
      \<and> py_eq_int nested 200
      \<and> dict_getitem response ''ResponseMetadata'' = Inr md
      \<and> py_getitem md ''HTTPStatusCode'' = Inr code)"

subsection \<open>Sample worlds\<close>

text \<open>
  Concrete worlds for the evaluations below. The event is the one of the specification's
  scenario. The library functions are given as tables over the texts that occur in these
  worlds: \<open>json.dumps\<close> of a plain string puts it between double quotes, the sample texts
  are ASCII, so decoding them as UTF-8 leaves them as they are.
\<close>

definition sample_event :: pyval where
  "sample_event =
     PDict [(''Action'', PStr ''Grant''),
            (''ServiceId'', PStr ''vpce-123''),
            (''Principal'', PStr ''arn:aws:iam::111111111111:root'')]"

definition sample_environ :: "(string \<times> string) list" where
  "sample_environ =
     [(''VPCE_PERM_ROLE_ARN'', ''arn:aws:iam::222222222222:role/vpce-perm''),
      (''FUNC_NAME'', ''vpce-permissions'')]"

definition sample_token :: pydict where
  "sample_token =
     [(''Credentials'',
       PDict [(''AccessKeyId'', PStr ''ASIAEXAMPLE''),
              (''SecretAccessKey'', PStr ''secret''),
              (''SessionToken'', PStr ''token'')])]"

definition sample_client :: lambda_client where
  "sample_client = LambdaClient (PStr ''ASIAEXAMPLE'') (PStr ''secret'') (PStr ''token'')"

definition sample_payload :: string where
  \<open>sample_payload =
     ''{"Action": "Grant", "ServiceId": "vpce-123", "Principal": "arn:aws:iam::111111111111:root"}''\<close>

definition payload_ok :: string where
  \<open>payload_ok = ''{"statusCode": 200, "body": "ok"}''\<close>

definition payload_denied :: string where
  \<open>payload_denied = ''{"statusCode": 403, "body": "denied"}''\<close>

definition payload_function_error :: string where
  \<open>payload_function_error = ''{"errorMessage": "boom"}''\<close>

definition sample_dumps :: "pyval \<Rightarrow> exn + string" where
  "sample_dumps v =
     (if v = sample_event then Inr sample_payload
      else Inl (TypeError ''Object is not JSON serializable''))"

definition sample_loads :: "string \<Rightarrow> exn + pyval" where
  "sample_loads s =
     (if s = payload_ok
        then Inr (PDict [(''statusCode'', PInt 200), (''body'', PStr ''ok'')])
      else if s = payload_denied
        then Inr (PDict [(''statusCode'', PInt 403), (''body'', PStr ''denied'')])
      else if s = payload_function_error
        then Inr (PDict [(''errorMessage'', PStr ''boom'')])
      else Inl (OtherException ''Expecting value: line 1 column 1 (char 0)''))"

definition sample_b64decode :: "string \<Rightarrow> exn + string" where
  "sample_b64decode s =
     (if s = ''ZGVuaWVk'' then Inr ''denied''
      else Inl (OtherException ''Incorrect padding''))"

definition sample_world ::
    "(string \<times> string) list \<Rightarrow> exn + pydict \<Rightarrow> exn + pydict \<Rightarrow> world" where
  "sample_world env assume_answer invoke_answer =
     \<lparr> environ = env,
       sts_assume_role = (\<lambda>role_arn session_name. assume_answer),
       lambda_invoke = (\<lambda>client function_name log_type payload. invoke_answer),
       json_dumps = sample_dumps,
       json_dumps_str = (\<lambda>s. [CHR 0x22] @ s @ [CHR 0x22]),
       json_loads = sample_loads,
       utf8_decode = Inr,
       b64decode = sample_b64decode \<rparr>"

text \<open>A response of \<open>invoke\<close> in the order botocore builds it.\<close>

definition sample_response :: "int \<Rightarrow> pydict \<Rightarrow> string \<Rightarrow> pydict" where
  "sample_response http optional payload =
     [(''ResponseMetadata'', PDict [(''HTTPStatusCode'', PInt http)]),
      (''StatusCode'', PInt http)]
     @ optional @
     [(''ExecutedVersion'', PStr ''$LATEST''),
      (''Payload'', PStream payload)]"

subsection \<open>Scenarios\<close>

definition response_ok :: pydict where
  \<open>response_ok =
     sample_response 200 [(''LogResult'', PStr ''ZGVuaWVk'')] payload_ok\<close>

definition response_accepted :: pydict where
  \<open>response_accepted =
     sample_response 202 [(''LogResult'', PStr ''ZGVuaWVk'')] payload_ok\<close>

definition response_denied :: pydict where
  \<open>response_denied =
     sample_response 200 [(''LogResult'', PStr ''ZGVuaWVk'')]
       payload_denied\<close>

definition response_denied_no_log :: pydict where
  \<open>response_denied_no_log = sample_response 200 [] payload_denied\<close>

definition response_function_error :: pydict where
  \<open>response_function_error =
     sample_response 200 [(''FunctionError'', PStr ''Unhandled''), (''LogResult'', PStr ''ZGVuaWVk'')]
       payload_function_error\<close>

definition response_malformed :: pydict where
  \<open>response_malformed = sample_response 200 [(''LogResult'', PStr ''ZGVuaWVk'')] ''<html>''\<close>

definition connect_timeout :: exn where
  \<open>connect_timeout =
     OtherException
       ''Connect timeout on endpoint URL: "https://lambda.eu-west-1.amazonaws.com/2015-03-31/functions/vpce-permissions/invocations"''\<close>

definition world_of :: "pydict \<Rightarrow> world" where
  "world_of response = sample_world sample_environ (Inr sample_token) (Inr response)"

subsection \<open>Unfolding\<close>

lemmas sample_defs = sample_event_def sample_environ_def sample_token_def sample_client_def
  sample_payload_def payload_ok_def payload_denied_def
  payload_function_error_def sample_dumps_def sample_loads_def sample_b64decode_def sample_world_def
  sample_response_def

lemmas module_defs = dict_getitem_def dict_keys_def handle_response_status_and_msg_def
  handle_error_def get_lambda_client_in_hub_account_def decode_log_result_def classify_def
  invoke_try_body_def unable_to_invoke_def invoke_lambda_in_the_networking_account_def
  barrier_result_def lambda_handler_def


lemmas scenario_defs = response_ok_def response_accepted_def response_denied_def
  response_denied_no_log_def response_function_error_def response_malformed_def world_of_def
  connect_timeout_def

subsection \<open>Dictionaries\<close>

lemma map_of_dict_setitem: "map_of (dict_setitem d k v) = (map_of d)(k \<mapsto> v)"
  by (induction d) auto

lemma dict_getitem_setitem_other:
  "k' \<noteq> k \<Longrightarrow> dict_getitem (dict_setitem d k v) k' = dict_getitem d k'"
  by (simp add: dict_getitem_def map_of_dict_setitem)

lemma dict_getitem_setitem_same: "dict_getitem (dict_setitem d k v) k = Inr v"
  by (simp add: dict_getitem_def map_of_dict_setitem)

lemma dict_keys_setitem: "set (dict_keys (dict_setitem d k v)) = insert k (set (dict_keys d))"
  by (simp add: dict_keys_def map_of_dict_setitem flip: dom_map_of_conv_image_fst)

lemma dict_getitem_missing:
  "k \<notin> set (dict_keys d) \<Longrightarrow> dict_getitem d k = Inl (KeyError k)"
  by (simp add: dict_getitem_def dict_keys_def map_of_eq_None_iff split: option.splits)

subsection \<open>The success path\<close>

lemma handle_response_status_and_msg_ok:
  assumes "dict_getitem response ''ResponseMetadata'' = Inr md"
    and "py_getitem md ''HTTPStatusCode'' = Inr code"
  shows "handle_response_status_and_msg response =
           Inr (dict_setitem
                  (dict_setitem response ''responseStatus''
                     (PStr (if py_eq_int code 200 then ''SUCCESS'' else ''FAILED'')))
                  ''statusCode'' code)"
  using assms
  by (simp add: handle_response_status_and_msg_def Let_def dict_getitem_setitem_other)

lemma handle_response_status_and_msg_Inr:
  assumes "handle_response_status_and_msg response = Inr r"
  shows "\<exists>md code. dict_getitem response ''ResponseMetadata'' = Inr md
           \<and> py_getitem md ''HTTPStatusCode'' = Inr code
           \<and> r = dict_setitem
                  (dict_setitem response ''responseStatus''
                     (PStr (if py_eq_int code 200 then ''SUCCESS'' else ''FAILED'')))
                  ''statusCode'' code"
proof (cases "dict_getitem response ''ResponseMetadata''")
  case (Inl e)
  with assms show ?thesis by (simp add: handle_response_status_and_msg_def)
next
  case md: (Inr md)
  show ?thesis
  proof (cases "py_getitem md ''HTTPStatusCode''")
    case (Inl e)
    with assms md show ?thesis by (simp add: handle_response_status_and_msg_def)
  next
    case (Inr code)
    with assms md handle_response_status_and_msg_ok [OF md Inr] show ?thesis by simp
  qed
qed

subsection \<open>Where a returned dictionary comes from\<close>

lemma classify_Inr:
  assumes "classify w event response = Inr r"
  shows "(\<exists>m sc. r = handle_error w event m sc ''FAILED'')
           \<or> handle_response_status_and_msg response = Inr r"
  using assms
  by (auto simp: classify_def split: sum.splits if_splits)

lemma get_lambda_client_trace:
  "snd (get_lambda_client_in_hub_account w arn tr) = tr @ [AssumeRole arn ''VPCE_PERMISSIONS'']"
  by (simp add: get_lambda_client_in_hub_account_def Let_def split: sum.splits)

lemma get_lambda_client_fails:
  "sts_assume_role w arn ''VPCE_PERMISSIONS'' = Inl e \<Longrightarrow>
     get_lambda_client_in_hub_account w arn tr = (Inl e, tr @ [AssumeRole arn ''VPCE_PERMISSIONS''])"
  by (simp add: get_lambda_client_in_hub_account_def Let_def)

lemma invoke_try_body_reaches_classify:
  assumes "get_lambda_client_in_hub_account w arn tr = (Inr client, tr1)"
    and "json_dumps w event = Inr payload"
    and "lambda_invoke w client fname ''Tail'' payload = Inr response"
  shows "invoke_try_body w arn fname event tr =
           (classify w event response, tr1 @ [Invoke fname ''Tail'' payload])"
  using assms by (simp add: invoke_try_body_def Let_def)

lemma invoke_try_body_Inr:
  assumes "invoke_try_body w arn fname event tr = (Inr r, tr')"
  shows "\<exists>client payload response.
           lambda_invoke w client fname ''Tail'' payload = Inr response
           \<and> classify w event response = Inr r"
  using assms
  by (auto simp: invoke_try_body_def Let_def split: prod.splits sum.splits)

lemma invoke_try_body_trace:
  assumes "invoke_try_body w arn fname event tr = (res, tr')"
  shows "tr' = tr @ [AssumeRole arn ''VPCE_PERMISSIONS'']
           \<or> (\<exists>payload. json_dumps w event = Inr payload
                 \<and> tr' = tr @ [AssumeRole arn ''VPCE_PERMISSIONS'', Invoke fname ''Tail'' payload])"
proof -
  obtain c tr1 where c: "get_lambda_client_in_hub_account w arn tr = (c, tr1)"
    by (cases "get_lambda_client_in_hub_account w arn tr")
  with get_lambda_client_trace [of w arn tr]
  have tr1: "tr1 = tr @ [AssumeRole arn ''VPCE_PERMISSIONS'']" by simp
  from assms c tr1 show ?thesis
    by (auto simp: invoke_try_body_def Let_def split: sum.splits)
qed

lemma invoke_lambda_raises:
  assumes "invoke_try_body w arn fname event tr = (Inl e, tr')" and "\<not> is_ClientError e"
  shows "invoke_lambda_in_the_networking_account w arn fname event tr = (Inl e, tr')"
  using assms by (cases e) (simp_all add: invoke_lambda_in_the_networking_account_def)

lemma invoke_lambda_handles_ClientError:
  assumes "invoke_try_body w arn fname event tr = (Inl (ClientError m), tr')"
  shows "invoke_lambda_in_the_networking_account w arn fname event tr =
           (Inr (handle_error w event (unable_to_invoke @ m) (PInt 500) ''FAILED''), tr')"
  using assms by (simp add: invoke_lambda_in_the_networking_account_def)

lemma invoke_lambda_Inr:
  assumes "invoke_lambda_in_the_networking_account w arn fname event tr = (Inr r, tr')"
  shows "(\<exists>m. r = handle_error w event m (PInt 500) ''FAILED'')
           \<or> invoke_try_body w arn fname event tr = (Inr r, tr')"
  using assms
  by (auto simp: invoke_lambda_in_the_networking_account_def split: prod.splits sum.splits exn.splits)

lemma invoke_lambda_trace:
  "snd (invoke_lambda_in_the_networking_account w arn fname event tr) =
     snd (invoke_try_body w arn fname event tr)"
  by (auto simp: invoke_lambda_in_the_networking_account_def split: prod.splits sum.splits exn.splits)

lemma handle_error_statusCode:
  "dict_getitem (handle_error w event m sc rs) ''statusCode'' = Inr (PInt 400)"
  by (simp add: handle_error_def dict_getitem_def)

lemma lambda_handler_raised:
  assumes "map_of (environ w) ''VPCE_PERM_ROLE_ARN'' = Some arn"
    and "map_of (environ w) ''FUNC_NAME'' = Some fname"
    and "invoke_lambda_in_the_networking_account w arn fname event [] = (Inl ex, tr)"
  shows "lambda_handler w event context = (Inr (barrier_result event ex), tr)"
  using assms by (simp add: lambda_handler_def)

lemma lambda_handler_returned:
  assumes "map_of (environ w) ''VPCE_PERM_ROLE_ARN'' = Some arn"
    and "map_of (environ w) ''FUNC_NAME'' = Some fname"
    and "invoke_lambda_in_the_networking_account w arn fname event [] = (Inr r, tr)"
  shows "lambda_handler w event context = (Inr r, tr)"
proof -
  from invoke_lambda_Inr [OF assms(3)]
  have "\<exists>sc. dict_getitem r ''statusCode'' = Inr sc"
  proof
    assume "\<exists>m. r = handle_error w event m (PInt 500) ''FAILED''"
    then show ?thesis by (auto simp: handle_error_statusCode)
  next
    assume "invoke_try_body w arn fname event [] = (Inr r, tr)"
    from invoke_try_body_Inr [OF this] obtain response where "classify w event response = Inr r"
      by blast
    from classify_Inr [OF this] show ?thesis
    proof
      assume "\<exists>m sc. r = handle_error w event m sc ''FAILED''"
      then show ?thesis by (auto simp: handle_error_statusCode)
    next
      assume "handle_response_status_and_msg response = Inr r"
      from handle_response_status_and_msg_Inr [OF this] show ?thesis
        by (auto simp: dict_getitem_setitem_same)
    qed
  qed
  with assms show ?thesis by (auto simp: lambda_handler_def)
qed




lemma lambda_handler_Inr:
  assumes "lambda_handler w event ctx = (Inr r, tr)"
  shows "(\<exists>ex. r = barrier_result event ex)
       \<or> (\<exists>m sc rs. r = handle_error w event m sc rs)
       \<or> (\<exists>client fname payload response.
             lambda_invoke w client fname ''Tail'' payload = Inr response
             \<and> handle_response_status_and_msg response = Inr r)"
proof -
  from assms obtain arn fname where env:
    "map_of (environ w) ''VPCE_PERM_ROLE_ARN'' = Some arn"
    "map_of (environ w) ''FUNC_NAME'' = Some fname"
    by (auto simp: lambda_handler_def split: option.splits)
  obtain res tr' where inv:
    "invoke_lambda_in_the_networking_account w arn fname event [] = (res, tr')"
    by (cases "invoke_lambda_in_the_networking_account w arn fname event []")
  show ?thesis
  proof (cases res)
    case (Inl ex)
    with inv lambda_handler_raised [OF env, of event ex tr' ctx] assms show ?thesis by auto
  next
    case (Inr r')
    with inv lambda_handler_returned [OF env, of event r' tr' ctx] assms
    have r: "invoke_lambda_in_the_networking_account w arn fname event [] = (Inr r, tr)" by simp
    from invoke_lambda_Inr [OF r] show ?thesis
    proof
      assume "\<exists>m. r = handle_error w event m (PInt 500) ''FAILED''"
      then show ?thesis by blast
    next
      assume "invoke_try_body w arn fname event [] = (Inr r, tr)"
      from invoke_try_body_Inr [OF this] obtain client payload response where
        resp: "lambda_invoke w client fname ''Tail'' payload = Inr response"
        and cl: "classify w event response = Inr r"
        by blast
      from classify_Inr [OF cl] resp show ?thesis by blast
    qed
  qed
qed

lemma lambda_handler_trace:
  assumes "lambda_handler w event ctx = (res, tr)"
  shows "\<forall>fname log_type payload. Invoke fname log_type payload \<in> set tr \<longrightarrow>
           json_dumps w event = Inr payload \<and> log_type = ''Tail''
           \<and> map_of (environ w) ''FUNC_NAME'' = Some fname"
proof (cases "map_of (environ w) ''VPCE_PERM_ROLE_ARN''")
  case None
  with assms show ?thesis by (auto simp: lambda_handler_def)
next
  case arn: (Some arn)
  show ?thesis
  proof (cases "map_of (environ w) ''FUNC_NAME''")
    case None
    with assms arn show ?thesis by (auto simp: lambda_handler_def)
  next
    case fname: (Some fname)
    obtain res' tr' where inv:
      "invoke_lambda_in_the_networking_account w arn fname event [] = (res', tr')"
      by (cases "invoke_lambda_in_the_networking_account w arn fname event []")
    with assms arn fname have tr: "tr = tr'"
      by (auto simp: lambda_handler_def split: sum.splits)
    obtain res2 tr2 where body: "invoke_try_body w arn fname event [] = (res2, tr2)"
      by (cases "invoke_try_body w arn fname event []")
    with inv invoke_lambda_trace [of w arn fname event "[]"] have "tr' = tr2" by simp
    with tr invoke_try_body_trace [OF body] fname show ?thesis by auto
  qed
qed

lemma barrier_result_shape:
  "dict_keys (barrier_result event ex) = [''event'', ''statusCode'', ''responseStatus'', ''body'']
   \<and> map_of (barrier_result event ex) ''event'' = Some event
   \<and> map_of (barrier_result event ex) ''statusCode'' = Some (PInt 400)
   \<and> map_of (barrier_result event ex) ''responseStatus'' = Some (PStr ''FAILED'')
   \<and> map_of (barrier_result event ex) ''body'' = Some (PStr (str_exn ex))"
  by (simp add: barrier_result_def dict_keys_def)

lemma handle_error_shape:
  "dict_keys (handle_error w event m sc rs) = [''event'', ''statusCode'', ''responseStatus'', ''body'']
   \<and> map_of (handle_error w event m sc rs) ''event'' = Some event
   \<and> map_of (handle_error w event m sc rs) ''statusCode'' = Some (PInt 400)
   \<and> map_of (handle_error w event m sc rs) ''responseStatus'' = Some (PStr ''FAILED'')
   \<and> map_of (handle_error w event m sc rs) ''body'' = Some (PStr (json_dumps_str w m))"
  by (simp add: handle_error_def dict_keys_def)

subsection \<open>The run behind a returned dictionary\<close>

lemma py_read_Inr: "py_read body = Inr bytes \<Longrightarrow> body = PStream bytes"
  by (cases body) simp_all

lemma classify_Inr_branch:
  assumes "classify w event response = Inr r"
  shows "(\<exists>m sc. r = handle_error w event m sc ''FAILED'')
       \<or> ((\<exists>sc bytes payload_text actual nested.
               dict_getitem response ''StatusCode'' = Inr sc
             \<and> dict_getitem response ''Payload'' = Inr (PStream bytes)
             \<and> utf8_decode w bytes = Inr payload_text
             \<and> json_loads w payload_text = Inr actual
             \<and> py_getitem actual ''statusCode'' = Inr nested
             \<and> ''FunctionError'' \<notin> set (dict_keys response)
             \<and> py_eq_int nested 200)
           \<and> handle_response_status_and_msg response = Inr r)"
  using assms
  by (auto simp: classify_def split: sum.splits if_splits dest!: py_read_Inr)

lemma invoke_try_body_Inr_run:
  assumes "invoke_try_body w arn fname event tr = (Inr r, tr')"
  shows "\<exists>client tr1 payload response.
           get_lambda_client_in_hub_account w arn tr = (Inr client, tr1)
         \<and> json_dumps w event = Inr payload
         \<and> lambda_invoke w client fname ''Tail'' payload = Inr response
         \<and> classify w event response = Inr r"
  using assms
  by (auto simp: invoke_try_body_def Let_def split: prod.splits sum.splits)

lemma invoke_lambda_returns:
  assumes "invoke_try_body w arn fname event tr = (Inr r, tr')"
  shows "invoke_lambda_in_the_networking_account w arn fname event tr = (Inr r, tr')"
  using assms by (simp add: invoke_lambda_in_the_networking_account_def)

lemma remote_success_result:
  assumes "map_of (environ w) ''VPCE_PERM_ROLE_ARN'' = Some arn"
    and "map_of (environ w) ''FUNC_NAME'' = Some fname"
    and "remote_success w event arn fname response code"
  shows "fst (lambda_handler w event ctx) =
           Inr (dict_setitem
                  (dict_setitem response ''responseStatus''
                     (PStr (if py_eq_int code 200 then ''SUCCESS'' else ''FAILED'')))
                  ''statusCode'' code)"
proof -
  from assms(3) obtain client tr1 payload sc bytes payload_text actual nested md where
    run: "get_lambda_client_in_hub_account w arn [] = (Inr client, tr1)"
      "json_dumps w event = Inr payload"
      "lambda_invoke w client fname ''Tail'' payload = Inr response"
    and branch: "dict_getitem response ''StatusCode'' = Inr sc"
      "dict_getitem response ''Payload'' = Inr (PStream bytes)"
      "utf8_decode w bytes = Inr payload_text"
      "json_loads w payload_text = Inr actual"
      "py_getitem actual ''statusCode'' = Inr nested"
      "''FunctionError'' \<notin> set (dict_keys response)"
      "py_eq_int nested 200"
    and meta: "dict_getitem response ''ResponseMetadata'' = Inr md"
      "py_getitem md ''HTTPStatusCode'' = Inr code"
    unfolding remote_success_def by blast
  from branch have "classify w event response = handle_response_status_and_msg response"
    by (simp add: classify_def)
  with handle_response_status_and_msg_ok [OF meta] invoke_try_body_reaches_classify [OF run]
  have "invoke_try_body w arn fname event [] =
      (Inr (dict_setitem
              (dict_setitem response ''responseStatus''
                 (PStr (if py_eq_int code 200 then ''SUCCESS'' else ''FAILED'')))
              ''statusCode'' code),
       tr1 @ [Invoke fname ''Tail'' payload])"
    by simp
  from lambda_handler_returned [OF assms(1,2) invoke_lambda_returns [OF this]]
  show ?thesis by simp
qed

lemma not_remote_success_result:
  assumes "lambda_handler w event ctx = (Inr r, tr)"
    and "map_of (environ w) ''VPCE_PERM_ROLE_ARN'' = Some arn"
    and "map_of (environ w) ''FUNC_NAME'' = Some fname"
    and "\<forall>response code. \<not> remote_success w event arn fname response code"
  shows "(\<exists>ex. r = barrier_result event ex) \<or> (\<exists>m sc rs. r = handle_error w event m sc rs)"
proof -
  obtain res tr' where inv:
    "invoke_lambda_in_the_networking_account w arn fname event [] = (res, tr')"
    by (cases "invoke_lambda_in_the_networking_account w arn fname event []")
  show ?thesis
  proof (cases res)
    case (Inl ex)
    with inv lambda_handler_raised [OF assms(2,3), of event ex tr' ctx] assms(1)
    show ?thesis by auto
  next
    case (Inr r')
    with inv lambda_handler_returned [OF assms(2,3), of event r' tr' ctx] assms(1)
    have r: "invoke_lambda_in_the_networking_account w arn fname event [] = (Inr r, tr)" by simp
    from invoke_lambda_Inr [OF r] show ?thesis
    proof
      assume "\<exists>m. r = handle_error w event m (PInt 500) ''FAILED''"
      then show ?thesis by blast
    next
      assume "invoke_try_body w arn fname event [] = (Inr r, tr)"
      from invoke_try_body_Inr_run [OF this] obtain client tr1 payload response where
        run: "get_lambda_client_in_hub_account w arn [] = (Inr client, tr1)"
          "json_dumps w event = Inr payload"
          "lambda_invoke w client fname ''Tail'' payload = Inr response"
        and cl: "classify w event response = Inr r"
        by blast
      from classify_Inr_branch [OF cl] show ?thesis
      proof
        assume "\<exists>m sc. r = handle_error w event m sc ''FAILED''"
        then show ?thesis by blast
      next
        assume success:
          "(\<exists>sc bytes payload_text actual nested.
               dict_getitem response ''StatusCode'' = Inr sc
             \<and> dict_getitem response ''Payload'' = Inr (PStream bytes)
             \<and> utf8_decode w bytes = Inr payload_text
             \<and> json_loads w payload_text = Inr actual
             \<and> py_getitem actual ''statusCode'' = Inr nested
             \<and> ''FunctionError'' \<notin> set (dict_keys response)
             \<and> py_eq_int nested 200)
           \<and> handle_response_status_and_msg response = Inr r"
        then have "handle_response_status_and_msg response = Inr r" by simp
        from handle_response_status_and_msg_Inr [OF this] obtain md code where
          "dict_getitem response ''ResponseMetadata'' = Inr md"
          "py_getitem md ''HTTPStatusCode'' = Inr code"
          by blast
        with run success have "remote_success w event arn fname response code"
          unfolding remote_success_def by blast
        with assms(4) show ?thesis by blast
      qed
    qed
  qed
qed

section \<open>The claims\<close>

subsection \<open>C1\<close>




subsection \<open>C2\<close>

text \<open>
  Claim C2, as stated, fails on the remote-success path. With transport status 200 and nested
  status 200 the handler returns the response of \<open>invoke\<close> with \<open>responseStatus\<close> and \<open>statusCode\<close>
  added: seven keys, and neither \<open>event\<close> nor \<open>body\<close> among them.
\<close>

theorem lambda_handler_success_result_lacks_event_and_body:
  "fst (lambda_handler (world_of response_ok) sample_event PNone) =
     Inr (response_ok @ [(''responseStatus'', PStr ''SUCCESS''), (''statusCode'', PInt 200)])
   \<and> dict_keys (response_ok @ [(''responseStatus'', PStr ''SUCCESS''), (''statusCode'', PInt 200)]) =
       [''ResponseMetadata'', ''StatusCode'', ''LogResult'', ''ExecutedVersion'', ''Payload'',
        ''responseStatus'', ''statusCode'']"
  by (simp add: sample_defs scenario_defs module_defs)

text \<open>
  Claim C2, amended. Whenever \<open>lambda_handler\<close> returns, both configuration keys are set and
  the result has one of two shapes, decided by the path of the run. If the run takes the
  remote-success path, the result is the response that \<open>invoke\<close> gave to this run with
  \<open>responseStatus\<close> set to \<open>SUCCESS\<close> when \<open>response['ResponseMetadata']['HTTPStatusCode'] == 200\<close>
  and to \<open>FAILED\<close> otherwise, and \<open>statusCode\<close> set to that transport code; its keys are those of
  the response and these two. On every other path, the failure paths, the result has exactly the
  keys \<open>event\<close>, \<open>statusCode\<close>, \<open>responseStatus\<close>, \<open>body\<close>, in this order, with the input event, the
  integer 400, the string \<open>FAILED\<close> and a string body.
\<close>

theorem lambda_handler_result_shape:
  assumes "lambda_handler w event ctx = (Inr r, tr)"
  shows "\<exists>arn fname.
           map_of (environ w) ''VPCE_PERM_ROLE_ARN'' = Some arn
         \<and> map_of (environ w) ''FUNC_NAME'' = Some fname
         \<and> ((\<exists>response code.
                 remote_success w event arn fname response code
               \<and> r = dict_setitem
                       (dict_setitem response ''responseStatus''
                          (PStr (if py_eq_int code 200 then ''SUCCESS'' else ''FAILED'')))
                       ''statusCode'' code
               \<and> set (dict_keys r) =
                   set (dict_keys response) \<union> {''responseStatus'', ''statusCode''})
            \<or> ((\<forall>response code. \<not> remote_success w event arn fname response code)
               \<and> dict_keys r = [''event'', ''statusCode'', ''responseStatus'', ''body'']
               \<and> map_of r ''event'' = Some event
               \<and> map_of r ''statusCode'' = Some (PInt 400)
               \<and> map_of r ''responseStatus'' = Some (PStr ''FAILED'')
               \<and> (\<exists>b. map_of r ''body'' = Some (PStr b))))"
proof -
  from assms obtain arn fname where env:
    "map_of (environ w) ''VPCE_PERM_ROLE_ARN'' = Some arn"
    "map_of (environ w) ''FUNC_NAME'' = Some fname"
    by (auto simp: lambda_handler_def split: option.splits)
  show ?thesis
  proof (cases "\<exists>response code. remote_success w event arn fname response code")
    case True
    then obtain response code where path: "remote_success w event arn fname response code"
      by blast
    from remote_success_result [OF env path, of ctx] assms
    have r: "r = dict_setitem
                   (dict_setitem response ''responseStatus''
                      (PStr (if py_eq_int code 200 then ''SUCCESS'' else ''FAILED'')))
                   ''statusCode'' code"
      by simp
    then have "set (dict_keys r) = set (dict_keys response) \<union> {''responseStatus'', ''statusCode''}"
      by (simp only: dict_keys_setitem) blast
    with env path r show ?thesis by blast
  next
    case False
    then have none: "\<forall>response code. \<not> remote_success w event arn fname response code"
      by blast
    from not_remote_success_result [OF assms env none]
    have "dict_keys r = [''event'', ''statusCode'', ''responseStatus'', ''body'']
        \<and> map_of r ''event'' = Some event
        \<and> map_of r ''statusCode'' = Some (PInt 400)
        \<and> map_of r ''responseStatus'' = Some (PStr ''FAILED'')
        \<and> (\<exists>b. map_of r ''body'' = Some (PStr b))"
    proof
      assume "\<exists>ex. r = barrier_result event ex"
      then obtain ex where "r = barrier_result event ex" by blast
      with barrier_result_shape [of event ex] show ?thesis by simp
    next
      assume "\<exists>m sc rs. r = handle_error w event m sc rs"
      then obtain m sc rs where "r = handle_error w event m sc rs" by blast
      with handle_error_shape [of w event m sc rs] show ?thesis by simp
    qed
    with env none show ?thesis by blast
  qed
qed

text \<open>
  Both paths. With transport status 202 and nested status 200 the run takes the remote-success
  path and returns the response with \<open>FAILED\<close> and 202. A remote denial (nested status 403 with a
  log tail) is not on that path and returns the four-key dictionary.
\<close>

theorem lambda_handler_result_shape_witness:
  "remote_success (world_of response_accepted) sample_event
     ''arn:aws:iam::222222222222:role/vpce-perm'' ''vpce-permissions'' response_accepted (PInt 202)
   \<and> fst (lambda_handler (world_of response_accepted) sample_event PNone) =
       Inr (response_accepted @ [(''responseStatus'', PStr ''FAILED''), (''statusCode'', PInt 202)])
   \<and> \<not> remote_success (world_of response_denied) sample_event
       ''arn:aws:iam::222222222222:role/vpce-perm'' ''vpce-permissions'' response_denied (PInt 200)
   \<and> fst (lambda_handler (world_of response_denied) sample_event PNone) =
       Inr [(''event'', sample_event),
            (''statusCode'', PInt 400),
            (''responseStatus'', PStr ''FAILED''),
            (''body'', PStr ([CHR 0x22] @ ''denied'' @ [CHR 0x22]))]"
proof -
  have accepted: "lambda_handler (world_of response_accepted) sample_event PNone =
     (Inr (response_accepted @ [(''responseStatus'', PStr ''FAILED''), (''statusCode'', PInt 202)]),
      [AssumeRole ''arn:aws:iam::222222222222:role/vpce-perm'' ''VPCE_PERMISSIONS'',
       Invoke ''vpce-permissions'' ''Tail'' sample_payload])"
    by (simp add: sample_defs scenario_defs module_defs)
  have denied: "lambda_handler (world_of response_denied) sample_event PNone =
     (Inr [(''event'', sample_event),
           (''statusCode'', PInt 400),
           (''responseStatus'', PStr ''FAILED''),
           (''body'', PStr ([CHR 0x22] @ ''denied'' @ [CHR 0x22]))],
      [AssumeRole ''arn:aws:iam::222222222222:role/vpce-perm'' ''VPCE_PERMISSIONS'',
       Invoke ''vpce-permissions'' ''Tail'' sample_payload])"
    by (simp add: sample_defs scenario_defs module_defs)
  have env: "map_of (environ (world_of response_accepted)) ''VPCE_PERM_ROLE_ARN'' =
        Some ''arn:aws:iam::222222222222:role/vpce-perm''"
      "map_of (environ (world_of response_accepted)) ''FUNC_NAME'' = Some ''vpce-permissions''"
      "map_of (environ (world_of response_denied)) ''VPCE_PERM_ROLE_ARN'' =
        Some ''arn:aws:iam::222222222222:role/vpce-perm''"
      "map_of (environ (world_of response_denied)) ''FUNC_NAME'' = Some ''vpce-permissions''"
    by (simp_all add: sample_defs scenario_defs)
  have invoke_accepted:
    "\<And>client fname log_type payload response.
       lambda_invoke (world_of response_accepted) client fname log_type payload = Inr response
       \<Longrightarrow> response = response_accepted"
    by (simp add: sample_defs scenario_defs)
  have not_four: "dict_keys (response_accepted
        @ [(''responseStatus'', PStr ''FAILED''), (''statusCode'', PInt 202)])
      \<noteq> [''event'', ''statusCode'', ''responseStatus'', ''body'']"
    by (simp add: sample_defs scenario_defs dict_keys_def)
  have code_accepted:
    "\<And>code. remote_success (world_of response_accepted) sample_event
        ''arn:aws:iam::222222222222:role/vpce-perm'' ''vpce-permissions'' response_accepted code
       \<Longrightarrow> code = PInt 202"
    by (auto simp: remote_success_def sample_defs scenario_defs dict_getitem_def)
  have denied_off: "\<And>response code. \<not> remote_success (world_of response_denied) sample_event
        ''arn:aws:iam::222222222222:role/vpce-perm'' ''vpce-permissions'' response code"
    by (auto simp: remote_success_def sample_defs scenario_defs dict_getitem_def)
  from lambda_handler_result_shape [OF accepted] env(1,2) not_four
  obtain response code where
    "remote_success (world_of response_accepted) sample_event
       ''arn:aws:iam::222222222222:role/vpce-perm'' ''vpce-permissions'' response code"
    by auto
  moreover from this have "response = response_accepted"
    unfolding remote_success_def using invoke_accepted by blast
  ultimately have on_path: "remote_success (world_of response_accepted) sample_event
       ''arn:aws:iam::222222222222:role/vpce-perm'' ''vpce-permissions'' response_accepted (PInt 202)"
    using code_accepted by blast
  from on_path accepted denied denied_off show ?thesis by simp
qed

subsection \<open>C3\<close>

text \<open>
  Claim C3, as stated, fails on two responses that satisfy its condition. With the execution-error
  flag set and the payload Lambda sends for an unhandled error (no nested \<open>statusCode\<close>), the
  subscript \<open>['statusCode']\<close> raises before the flag is looked at. With nested status 403 and no
  \<open>LogResult\<close> key, the subscript \<open>response['LogResult']\<close> raises. Neither call produces a
  dictionary.
\<close>

theorem classify_remote_failure_raises:
  "''FunctionError'' \<in> set (dict_keys response_function_error)
   \<and> classify (world_of response_function_error) sample_event response_function_error
       = Inl (KeyError ''statusCode'')
   \<and> classify (world_of response_denied_no_log) sample_event response_denied_no_log
       = Inl (KeyError ''LogResult'')"
  by (simp add: sample_defs scenario_defs module_defs)

text \<open>
  Claim C3, amended. For a response that has a \<open>StatusCode\<close>, a payload that decodes to JSON with
  a nested \<open>statusCode\<close>, and a \<open>LogResult\<close> that decodes (base64, then UTF-8) to a text: if the
  execution-error flag is present or the nested \<open>statusCode\<close> is not 200, the result is the dictionary
  with \<open>event\<close>, \<open>statusCode\<close> 400 (whatever the nested code), \<open>responseStatus\<close> \<open>FAILED\<close> and
  \<open>body\<close> the JSON encoding of the decoded log text.
\<close>

theorem classify_remote_failure:
  assumes "dict_getitem response ''StatusCode'' = Inr sc"
    and "dict_getitem response ''Payload'' = Inr (PStream bytes)"
    and "utf8_decode w bytes = Inr payload_text"
    and "json_loads w payload_text = Inr actual"
    and "py_getitem actual ''statusCode'' = Inr nested"
    and "''FunctionError'' \<in> set (dict_keys response) \<or> \<not> py_eq_int nested 200"
    and "dict_getitem response ''LogResult'' = Inr (PStr b64)"
    and "b64decode w b64 = Inr raw"
    and "utf8_decode w raw = Inr log_text"
  shows "classify w event response =
           Inr [(''event'', event),
                (''statusCode'', PInt 400),
                (''responseStatus'', PStr ''FAILED''),
                (''body'', PStr (json_dumps_str w log_text))]"
  using assms by (auto simp: classify_def decode_log_result_def handle_error_def)

text \<open>
  Nested status 403, no execution-error flag, log tail \<open>denied\<close>: status 400, not 403.
\<close>

theorem classify_remote_failure_witness:
  "classify (world_of response_denied) sample_event response_denied =
     Inr [(''event'', sample_event),
          (''statusCode'', PInt 400),
          (''responseStatus'', PStr ''FAILED''),
          (''body'', PStr ([CHR 0x22] @ ''denied'' @ [CHR 0x22]))]"
  using classify_remote_failure
    [where w = "world_of response_denied" and event = sample_event
       and response = response_denied and sc = "PInt 200"
       and bytes = payload_denied
       and payload_text = payload_denied
       and actual = "PDict [(''statusCode'', PInt 403), (''body'', PStr ''denied'')]"
       and nested = "PInt 403" and ?b64.0 = "''ZGVuaWVk''" and raw = "''denied''"
       and log_text = "''denied''"]
  by (simp add: sample_defs scenario_defs dict_getitem_def dict_keys_def)

subsection \<open>C4\<close>

text \<open>
  Claim C4. For a response with no execution-error flag whose payload decodes to JSON with a
  nested \<open>statusCode\<close> equal to 200, and whose transport metadata carries
  \<open>ResponseMetadata.HTTPStatusCode\<close> = \<open>code\<close>: the result is the response with \<open>responseStatus\<close>
  set to \<open>SUCCESS\<close> exactly when \<open>code == 200\<close> and to \<open>FAILED\<close> otherwise, and with
  \<open>statusCode\<close> set to \<open>code\<close>, the transport status, not the nested one.
\<close>

theorem classify_remote_success:
  assumes "dict_getitem response ''StatusCode'' = Inr sc"
    and "dict_getitem response ''Payload'' = Inr (PStream bytes)"
    and "utf8_decode w bytes = Inr payload_text"
    and "json_loads w payload_text = Inr actual"
    and "py_getitem actual ''statusCode'' = Inr nested"
    and "''FunctionError'' \<notin> set (dict_keys response)"
    and "py_eq_int nested 200"
    and "dict_getitem response ''ResponseMetadata'' = Inr md"
    and "py_getitem md ''HTTPStatusCode'' = Inr code"
    and "r = dict_setitem
               (dict_setitem response ''responseStatus''
                  (PStr (if py_eq_int code 200 then ''SUCCESS'' else ''FAILED'')))
               ''statusCode'' code"
  shows "classify w event response = Inr r
       \<and> map_of r ''statusCode'' = Some code
       \<and> map_of r ''responseStatus'' =
           Some (PStr (if py_eq_int code 200 then ''SUCCESS'' else ''FAILED''))"
proof -
  from assms(1-7) have "classify w event response = handle_response_status_and_msg response"
    by (simp add: classify_def)
  with handle_response_status_and_msg_ok [OF assms(8,9)] assms(10)
  have "classify w event response = Inr r" by simp
  moreover from assms(10) have "map_of r ''statusCode'' = Some code"
    by (simp add: map_of_dict_setitem)
  moreover from assms(10) have "map_of r ''responseStatus'' =
      Some (PStr (if py_eq_int code 200 then ''SUCCESS'' else ''FAILED''))"
    by (simp add: map_of_dict_setitem)
  ultimately show ?thesis by simp
qed

text \<open>
  Transport status 202 with nested status 200: \<open>statusCode\<close> is 202 and \<open>responseStatus\<close> is
  \<open>FAILED\<close>.
\<close>

theorem classify_remote_success_witness:
  "classify (world_of response_accepted) sample_event response_accepted =
     Inr (response_accepted @ [(''responseStatus'', PStr ''FAILED''), (''statusCode'', PInt 202)])
   \<and> map_of (response_accepted @ [(''responseStatus'', PStr ''FAILED''), (''statusCode'', PInt 202)])
        ''statusCode'' = Some (PInt 202)
   \<and> map_of (response_accepted @ [(''responseStatus'', PStr ''FAILED''), (''statusCode'', PInt 202)])
        ''responseStatus'' = Some (PStr ''FAILED'')"
  using classify_remote_success
    [where w = "world_of response_accepted" and event = sample_event
       and response = response_accepted and sc = "PInt 202"
       and bytes = payload_ok
       and payload_text = payload_ok
       and actual = "PDict [(''statusCode'', PInt 200), (''body'', PStr ''ok'')]"
       and nested = "PInt 200" and md = "PDict [(''HTTPStatusCode'', PInt 202)]"
       and code = "PInt 202"
       and r = "response_accepted @ [(''responseStatus'', PStr ''FAILED''), (''statusCode'', PInt 202)]"]
  by (simp add: sample_defs scenario_defs dict_getitem_def dict_keys_def)

subsection \<open>C5\<close>

text \<open>
  Claim C5. Let the role be assumed and the remote function invoked, and let the payload fail to
  yield a nested \<open>statusCode\<close>: its bytes are not UTF-8, or the text is not JSON, or the JSON value
  has no \<open>statusCode\<close> to subscript. The error \<open>e\<close> is not of the class the local handler catches,
  so the invocation step raises \<open>e\<close>, and \<open>lambda_handler\<close> catches it and returns the dictionary
  with \<open>statusCode\<close> 400, \<open>responseStatus\<close> \<open>FAILED\<close> and \<open>body\<close> \<open>str(e)\<close>.
\<close>

theorem malformed_payload_reaches_barrier:
  assumes "map_of (environ w) ''VPCE_PERM_ROLE_ARN'' = Some arn"
    and "map_of (environ w) ''FUNC_NAME'' = Some fname"
    and "get_lambda_client_in_hub_account w arn [] = (Inr client, tr1)"
    and "json_dumps w event = Inr payload"
    and "lambda_invoke w client fname ''Tail'' payload = Inr response"
    and "dict_getitem response ''StatusCode'' = Inr sc"
    and "dict_getitem response ''Payload'' = Inr (PStream bytes)"
    and "utf8_decode w bytes = Inl e
         \<or> (\<exists>payload_text. utf8_decode w bytes = Inr payload_text
               \<and> (json_loads w payload_text = Inl e
                    \<or> (\<exists>v. json_loads w payload_text = Inr v
                          \<and> py_getitem v ''statusCode'' = Inl e)))"
    and "\<not> is_ClientError e"
  shows "invoke_lambda_in_the_networking_account w arn fname event [] =
           (Inl e, tr1 @ [Invoke fname ''Tail'' payload])
       \<and> lambda_handler w event ctx =
           (Inr [(''event'', event),
                 (''statusCode'', PInt 400),
                 (''responseStatus'', PStr ''FAILED''),
                 (''body'', PStr (str_exn e))],
            tr1 @ [Invoke fname ''Tail'' payload])"
proof -
  from assms(6-8) have "classify w event response = Inl e"
    by (auto simp: classify_def)
  with invoke_try_body_reaches_classify [OF assms(3-5)]
  have "invoke_try_body w arn fname event [] = (Inl e, tr1 @ [Invoke fname ''Tail'' payload])"
    by simp
  from invoke_lambda_raises [OF this assms(9)]
  have raised: "invoke_lambda_in_the_networking_account w arn fname event [] =
      (Inl e, tr1 @ [Invoke fname ''Tail'' payload])" .
  from lambda_handler_raised [OF assms(1,2) raised] raised show ?thesis
    by (simp add: barrier_result_def)
qed

text \<open>
  A payload of HTML: \<open>json.loads\<close> raises, the invocation step raises, the handler returns 400.
\<close>

theorem malformed_payload_reaches_barrier_witness:
  "invoke_lambda_in_the_networking_account (world_of response_malformed)
       ''arn:aws:iam::222222222222:role/vpce-perm'' ''vpce-permissions'' sample_event [] =
     (Inl (OtherException ''Expecting value: line 1 column 1 (char 0)''),
      [AssumeRole ''arn:aws:iam::222222222222:role/vpce-perm'' ''VPCE_PERMISSIONS'',
       Invoke ''vpce-permissions'' ''Tail'' sample_payload])
   \<and> lambda_handler (world_of response_malformed) sample_event PNone =
     (Inr [(''event'', sample_event),
           (''statusCode'', PInt 400),
           (''responseStatus'', PStr ''FAILED''),
           (''body'', PStr ''Expecting value: line 1 column 1 (char 0)'')],
      [AssumeRole ''arn:aws:iam::222222222222:role/vpce-perm'' ''VPCE_PERMISSIONS'',
       Invoke ''vpce-permissions'' ''Tail'' sample_payload])"
  using malformed_payload_reaches_barrier
    [where w = "world_of response_malformed" and event = sample_event and ctx = PNone
       and arn = "''arn:aws:iam::222222222222:role/vpce-perm''" and fname = "''vpce-permissions''"
       and client = sample_client
       and ?tr1.0 = "[AssumeRole ''arn:aws:iam::222222222222:role/vpce-perm'' ''VPCE_PERMISSIONS'']"
       and payload = sample_payload and response = response_malformed and sc = "PInt 200"
       and bytes = "''<html>''"
       and e = "OtherException ''Expecting value: line 1 column 1 (char 0)''"]
  by (simp add: sample_defs scenario_defs dict_getitem_def get_lambda_client_in_hub_account_def)

subsection \<open>C6\<close>

text \<open>
  Claim C6, as stated, fails for a transport failure that is not a \<open>ClientError\<close>. When the call
  of \<open>invoke\<close> times out while connecting, botocore raises a \<open>ConnectTimeoutError\<close>, which line 93
  does not catch: the invocation step raises it, and the result is built by the \<open>except\<close> branch of
  \<open>lambda_handler\<close>, with the bare \<open>str(ex)\<close> as body.
\<close>

theorem transport_timeout_not_handled_locally:
  "invoke_lambda_in_the_networking_account
       (sample_world sample_environ (Inr sample_token) (Inl connect_timeout))
       ''arn:aws:iam::222222222222:role/vpce-perm'' ''vpce-permissions'' sample_event [] =
     (Inl connect_timeout,
      [AssumeRole ''arn:aws:iam::222222222222:role/vpce-perm'' ''VPCE_PERMISSIONS'',
       Invoke ''vpce-permissions'' ''Tail'' sample_payload])
   \<and> lambda_handler (sample_world sample_environ (Inr sample_token) (Inl connect_timeout))
       sample_event PNone =
     (Inr [(''event'', sample_event),
           (''statusCode'', PInt 400),
           (''responseStatus'', PStr ''FAILED''),
           (''body'', PStr (str_exn connect_timeout))],
      [AssumeRole ''arn:aws:iam::222222222222:role/vpce-perm'' ''VPCE_PERMISSIONS'',
       Invoke ''vpce-permissions'' ''Tail'' sample_payload])"
  by (simp add: sample_defs scenario_defs module_defs)

text \<open>
  Claim C6, amended. When \<open>lambda_client.invoke\<close> raises a \<open>ClientError\<close> (the service rejects the
  call: function not found, not authorised), the invocation step does not raise: its own handler
  returns the dictionary with \<open>statusCode\<close> 400, although it passes 500 to \<open>handle_error\<close>,
  \<open>responseStatus\<close> \<open>FAILED\<close>, and as \<open>body\<close> the JSON encoding of the text \<open>Unable to invoke ...\<close>
  followed by the error's message. \<open>lambda_handler\<close> returns what the invocation step returned, so
  its \<open>except\<close> branch, whose body would be the bare \<open>str(ex)\<close>, is not the one taken.
\<close>

theorem transport_failure_handled_locally:
  assumes "map_of (environ w) ''VPCE_PERM_ROLE_ARN'' = Some arn"
    and "map_of (environ w) ''FUNC_NAME'' = Some fname"
    and "get_lambda_client_in_hub_account w arn [] = (Inr client, tr1)"
    and "json_dumps w event = Inr payload"
    and "lambda_invoke w client fname ''Tail'' payload = Inl (ClientError m)"
  shows "invoke_lambda_in_the_networking_account w arn fname event [] =
           (Inr [(''event'', event),
                 (''statusCode'', PInt 400),
                 (''responseStatus'', PStr ''FAILED''),
                 (''body'', PStr (json_dumps_str w (unable_to_invoke @ m)))],
            tr1 @ [Invoke fname ''Tail'' payload])
       \<and> lambda_handler w event ctx =
           invoke_lambda_in_the_networking_account w arn fname event []"
proof -
  from assms(3-5)
  have "invoke_try_body w arn fname event [] =
      (Inl (ClientError m), tr1 @ [Invoke fname ''Tail'' payload])"
    by (simp add: invoke_try_body_def Let_def)
  from invoke_lambda_handles_ClientError [OF this]
  have handled: "invoke_lambda_in_the_networking_account w arn fname event [] =
      (Inr (handle_error w event (unable_to_invoke @ m) (PInt 500) ''FAILED''),
       tr1 @ [Invoke fname ''Tail'' payload])" .
  from lambda_handler_returned [OF assms(1,2) handled] handled show ?thesis
    by (simp add: handle_error_def)
qed

text \<open>
  The remote function does not exist.
\<close>

theorem transport_failure_handled_locally_witness:
  "lambda_handler
     (sample_world sample_environ (Inr sample_token)
        (Inl (ClientError ''An error occurred (ResourceNotFoundException) when calling the Invoke operation: Function not found'')))
     sample_event PNone =
     (Inr [(''event'', sample_event),
           (''statusCode'', PInt 400),
           (''responseStatus'', PStr ''FAILED''),
           (''body'', PStr ([CHR 0x22] @ unable_to_invoke
              @ ''An error occurred (ResourceNotFoundException) when calling the Invoke operation: Function not found''
              @ [CHR 0x22]))],
      [AssumeRole ''arn:aws:iam::222222222222:role/vpce-perm'' ''VPCE_PERMISSIONS'',
       Invoke ''vpce-permissions'' ''Tail'' sample_payload])"
  using transport_failure_handled_locally
    [where w = "sample_world sample_environ (Inr sample_token)
        (Inl (ClientError ''An error occurred (ResourceNotFoundException) when calling the Invoke operation: Function not found''))"
       and event = sample_event and ctx = PNone
       and arn = "''arn:aws:iam::222222222222:role/vpce-perm''" and fname = "''vpce-permissions''"
       and client = sample_client
       and ?tr1.0 = "[AssumeRole ''arn:aws:iam::222222222222:role/vpce-perm'' ''VPCE_PERMISSIONS'']"
       and payload = sample_payload
       and m = "''An error occurred (ResourceNotFoundException) when calling the Invoke operation: Function not found''"]
  by (simp add: sample_defs dict_getitem_def get_lambda_client_in_hub_account_def)

subsection \<open>C7\<close>

text \<open>
  Claim C7. When \<open>sts.assume_role\<close> raises \<open>e\<close>, \<open>lambda_handler\<close> returns the dictionary with
  \<open>statusCode\<close> 400 and \<open>responseStatus\<close> \<open>FAILED\<close>, whose \<open>body\<close> is built from \<open>str(e)\<close>: for a
  \<open>ClientError\<close> (caught by the handler of the invocation step) the JSON encoding of
  \<open>Unable to invoke ...\<close> followed by \<open>str(e)\<close>, for any other exception (caught by the top-level
  handler) \<open>str(e)\<close> itself. The trace is the one call of \<open>assume_role\<close>: it is not repeated, and
  the remote function is not invoked.
\<close>

theorem identity_assumption_failure:
  assumes "map_of (environ w) ''VPCE_PERM_ROLE_ARN'' = Some arn"
    and "map_of (environ w) ''FUNC_NAME'' = Some fname"
    and "sts_assume_role w arn ''VPCE_PERMISSIONS'' = Inl e"
  shows "lambda_handler w event ctx =
           (Inr [(''event'', event),
                 (''statusCode'', PInt 400),
                 (''responseStatus'', PStr ''FAILED''),
                 (''body'', PStr (if is_ClientError e
                                  then json_dumps_str w (unable_to_invoke @ str_exn e)
                                  else str_exn e))],
            [AssumeRole arn ''VPCE_PERMISSIONS''])"
proof -
  from get_lambda_client_fails [OF assms(3), of "[]"]
  have body: "invoke_try_body w arn fname event [] = (Inl e, [AssumeRole arn ''VPCE_PERMISSIONS''])"
    by (simp add: invoke_try_body_def)
  show ?thesis
  proof (cases "is_ClientError e")
    case True
    then obtain m where m: "e = ClientError m" by (cases e) simp_all
    from invoke_lambda_handles_ClientError [OF body [unfolded m]]
    have "invoke_lambda_in_the_networking_account w arn fname event [] =
        (Inr (handle_error w event (unable_to_invoke @ m) (PInt 500) ''FAILED''),
         [AssumeRole arn ''VPCE_PERMISSIONS''])" .
    from lambda_handler_returned [OF assms(1,2) this] m show ?thesis
      by (simp add: handle_error_def)
  next
    case False
    from lambda_handler_raised [OF assms(1,2) invoke_lambda_raises [OF body False]] False
    show ?thesis by (simp add: barrier_result_def)
  qed
qed

text \<open>
  STS denies the role.
\<close>

theorem identity_assumption_failure_witness:
  "lambda_handler
     (sample_world sample_environ
        (Inl (ClientError ''An error occurred (AccessDenied) when calling the AssumeRole operation: not authorized''))
        (Inr response_ok))
     sample_event PNone =
     (Inr [(''event'', sample_event),
           (''statusCode'', PInt 400),
           (''responseStatus'', PStr ''FAILED''),
           (''body'', PStr ([CHR 0x22] @ unable_to_invoke
              @ ''An error occurred (AccessDenied) when calling the AssumeRole operation: not authorized''
              @ [CHR 0x22]))],
      [AssumeRole ''arn:aws:iam::222222222222:role/vpce-perm'' ''VPCE_PERMISSIONS''])"
  using identity_assumption_failure
    [where w = "sample_world sample_environ
        (Inl (ClientError ''An error occurred (AccessDenied) when calling the AssumeRole operation: not authorized''))
        (Inr response_ok)"
       and event = sample_event and ctx = PNone
       and arn = "''arn:aws:iam::222222222222:role/vpce-perm''" and fname = "''vpce-permissions''"
       and e = "ClientError ''An error occurred (AccessDenied) when calling the AssumeRole operation: not authorized''"]
  by (simp add: sample_world_def sample_environ_def)

subsection \<open>C8\<close>

text \<open>
  Claim C8. The response of \<open>invoke\<close> has the keys that botocore gives it (\<open>ResponseMetadata\<close>,
  \<open>StatusCode\<close>, \<open>FunctionError\<close>, \<open>LogResult\<close>, \<open>ExecutedVersion\<close>, \<open>Payload\<close>), and \<open>event\<close> is none
  of them. Under this condition on the world: whenever the dictionary that \<open>lambda_handler\<close>
  returns has a key \<open>event\<close>, its value is the input event; and every call of \<open>invoke\<close> in the
  trace names the configured function, asks for the log tail, and carries \<open>json.dumps(event)\<close> of
  the input event as its payload.
\<close>

theorem event_passthrough:
  assumes "lambda_handler w event ctx = (Inr r, tr)"
    and "\<forall>client fname log_type payload response.
           lambda_invoke w client fname log_type payload = Inr response \<longrightarrow>
           ''event'' \<notin> set (dict_keys response)"
  shows "(\<forall>v. map_of r ''event'' = Some v \<longrightarrow> v = event)
       \<and> (\<forall>fname log_type payload. Invoke fname log_type payload \<in> set tr \<longrightarrow>
            json_dumps w event = Inr payload \<and> log_type = ''Tail''
            \<and> map_of (environ w) ''FUNC_NAME'' = Some fname)"
proof
  from lambda_handler_Inr [OF assms(1)]
  consider (barrier) ex where "r = barrier_result event ex"
    | (local) m sc rs where "r = handle_error w event m sc rs"
    | (success) client fname payload response where
        "lambda_invoke w client fname ''Tail'' payload = Inr response"
        "handle_response_status_and_msg response = Inr r"
    by blast
  then show "\<forall>v. map_of r ''event'' = Some v \<longrightarrow> v = event"
  proof cases
    case barrier
    then show ?thesis by (simp add: barrier_result_def)
  next
    case local
    then show ?thesis by (simp add: handle_error_def)
  next
    case success
    from assms(2) success(1) have no_event: "''event'' \<notin> set (dict_keys response)" by blast
    from handle_response_status_and_msg_Inr [OF success(2)] obtain code where
      "r = dict_setitem
             (dict_setitem response ''responseStatus''
                (PStr (if py_eq_int code 200 then ''SUCCESS'' else ''FAILED'')))
             ''statusCode'' code"
      by blast
    then have "map_of r ''event'' = map_of response ''event''"
      by (simp add: map_of_dict_setitem)
    also from no_event have "\<dots> = None"
      by (simp add: dict_keys_def map_of_eq_None_iff)
    finally show ?thesis by simp
  qed
next
  from lambda_handler_trace [OF assms(1)]
  show "\<forall>fname log_type payload. Invoke fname log_type payload \<in> set tr \<longrightarrow>
            json_dumps w event = Inr payload \<and> log_type = ''Tail''
            \<and> map_of (environ w) ''FUNC_NAME'' = Some fname" .
qed

text \<open>
  A remote denial: the result holds the input event, and the payload sent is its JSON text.
\<close>

theorem event_passthrough_witness:
  "lambda_handler (world_of response_denied) sample_event PNone =
     (Inr [(''event'', sample_event),
           (''statusCode'', PInt 400),
           (''responseStatus'', PStr ''FAILED''),
           (''body'', PStr ([CHR 0x22] @ ''denied'' @ [CHR 0x22]))],
      [AssumeRole ''arn:aws:iam::222222222222:role/vpce-perm'' ''VPCE_PERMISSIONS'',
       Invoke ''vpce-permissions'' ''Tail'' sample_payload])
   \<and> json_dumps (world_of response_denied) sample_event = Inr sample_payload"
proof -
  have h: "lambda_handler (world_of response_denied) sample_event PNone =
     (Inr [(''event'', sample_event),
           (''statusCode'', PInt 400),
           (''responseStatus'', PStr ''FAILED''),
           (''body'', PStr ([CHR 0x22] @ ''denied'' @ [CHR 0x22]))],
      [AssumeRole ''arn:aws:iam::222222222222:role/vpce-perm'' ''VPCE_PERMISSIONS'',
       Invoke ''vpce-permissions'' ''Tail'' sample_payload])"
    by (simp add: sample_defs scenario_defs module_defs)
  have shape: "\<forall>client fname log_type payload response.
           lambda_invoke (world_of response_denied) client fname log_type payload = Inr response \<longrightarrow>
           ''event'' \<notin> set (dict_keys response)"
    by (simp add: sample_defs scenario_defs dict_keys_def)
  from event_passthrough [OF h shape] h show ?thesis by simp
qed

subsection \<open>C9\<close>

text \<open>
  Claim C9. \<open>handle_error\<close> does not use its parameters \<open>statusCode\<close> and \<open>response_status\<close>: two
  calls that differ in these arguments only return the same dictionary, and in it \<open>statusCode\<close> is
  400 and \<open>responseStatus\<close> is \<open>FAILED\<close>, also when 500 is passed.
\<close>

theorem handle_error_ignores_status_arguments:
  "handle_error w event error_message statusCode response_status =
     handle_error w event error_message statusCode' response_status'
   \<and> map_of (handle_error w event error_message statusCode response_status) ''statusCode''
       = Some (PInt 400)
   \<and> map_of (handle_error w event error_message statusCode response_status) ''responseStatus''
       = Some (PStr ''FAILED'')"
  by (simp add: handle_error_def)

subsection \<open>C10\<close>

text \<open>
  Claim C10. Let the remote-failure branch be taken (execution-error flag present, or nested
  \<open>statusCode\<close> not 200) on a response without a \<open>LogResult\<close> key. The subscript raises
  \<open>KeyError('LogResult')\<close>; the handler of the invocation step catches \<open>ClientError\<close> only, so
  the invocation step raises it; and \<open>lambda_handler\<close> returns the dictionary with the event,
  \<open>statusCode\<close> 400, \<open>responseStatus\<close> \<open>FAILED\<close> and \<open>body\<close> \<open>str\<close> of the \<open>KeyError\<close>.
\<close>

theorem missing_log_result_reaches_barrier:
  assumes "map_of (environ w) ''VPCE_PERM_ROLE_ARN'' = Some arn"
    and "map_of (environ w) ''FUNC_NAME'' = Some fname"
    and "get_lambda_client_in_hub_account w arn [] = (Inr client, tr1)"
    and "json_dumps w event = Inr payload"
    and "lambda_invoke w client fname ''Tail'' payload = Inr response"
    and "dict_getitem response ''StatusCode'' = Inr sc"
    and "dict_getitem response ''Payload'' = Inr (PStream bytes)"
    and "utf8_decode w bytes = Inr payload_text"
    and "json_loads w payload_text = Inr actual"
    and "py_getitem actual ''statusCode'' = Inr nested"
    and "''FunctionError'' \<in> set (dict_keys response) \<or> \<not> py_eq_int nested 200"
    and "''LogResult'' \<notin> set (dict_keys response)"
  shows "invoke_lambda_in_the_networking_account w arn fname event [] =
           (Inl (KeyError ''LogResult''), tr1 @ [Invoke fname ''Tail'' payload])
       \<and> lambda_handler w event ctx =
           (Inr [(''event'', event),
                 (''statusCode'', PInt 400),
                 (''responseStatus'', PStr ''FAILED''),
                 (''body'', PStr (str_exn (KeyError ''LogResult'')))],
            tr1 @ [Invoke fname ''Tail'' payload])"
proof -
  from dict_getitem_missing [OF assms(12)] assms(6-11)
  have "classify w event response = Inl (KeyError ''LogResult'')"
    by (auto simp: classify_def)
  with invoke_try_body_reaches_classify [OF assms(3-5)]
  have "invoke_try_body w arn fname event [] =
      (Inl (KeyError ''LogResult''), tr1 @ [Invoke fname ''Tail'' payload])"
    by simp
  from invoke_lambda_raises [OF this]
  have raised: "invoke_lambda_in_the_networking_account w arn fname event [] =
      (Inl (KeyError ''LogResult''), tr1 @ [Invoke fname ''Tail'' payload])"
    by simp
  from lambda_handler_raised [OF assms(1,2) raised] raised show ?thesis
    by (simp add: barrier_result_def)
qed

text \<open>
  Nested status 403 and no log tail.
\<close>

theorem missing_log_result_reaches_barrier_witness:
  "lambda_handler (world_of response_denied_no_log) sample_event PNone =
     (Inr [(''event'', sample_event),
           (''statusCode'', PInt 400),
           (''responseStatus'', PStr ''FAILED''),
           (''body'', PStr (quoted ''LogResult''))],
      [AssumeRole ''arn:aws:iam::222222222222:role/vpce-perm'' ''VPCE_PERMISSIONS'',
       Invoke ''vpce-permissions'' ''Tail'' sample_payload])"
  using missing_log_result_reaches_barrier
    [where w = "world_of response_denied_no_log" and event = sample_event and ctx = PNone
       and arn = "''arn:aws:iam::222222222222:role/vpce-perm''" and fname = "''vpce-permissions''"
       and client = sample_client
       and ?tr1.0 = "[AssumeRole ''arn:aws:iam::222222222222:role/vpce-perm'' ''VPCE_PERMISSIONS'']"
       and payload = sample_payload and response = response_denied_no_log and sc = "PInt 200"
       and bytes = payload_denied and payload_text = payload_denied
       and actual = "PDict [(''statusCode'', PInt 403), (''body'', PStr ''denied'')]"
       and nested = "PInt 403"]
  by (simp add: sample_defs scenario_defs dict_getitem_def dict_keys_def
        get_lambda_client_in_hub_account_def)

end
